theory Spec2Isabelle
  imports Main
begin

section \<open>Syntax trees\<close>

text \<open>
  The code works on the trees of Python's \<^verbatim>\<open>ast\<close> module. A node is modelled by what the
  code reads of it: its identity (Python compares nodes by identity, \<^verbatim>\<open>list.remove\<close>
  included), its class with the fields the code inspects (\<^verbatim>\<open>name\<close>, \<^verbatim>\<open>names\<close>,
  \<^verbatim>\<open>module\<close>, \<^verbatim>\<open>id\<close>, \<^verbatim>\<open>ctx\<close>), and its child nodes in the order of
  \<^verbatim>\<open>ast.iter_child_nodes\<close>. For a \<^verbatim>\<open>Module\<close> the children are its \<^verbatim>\<open>body\<close>. Every
  node class the code never tests for is \<open>Other\<close>.
\<close>

type_synonym import_alias = "string \<times> string option"

datatype ctx = Load | Store | Del

datatype kind =
    Module
  | FunctionDef string
  | ClassDef string
  | Import "import_alias list"
  | ImportFrom "string option" "import_alias list"
  | Name string ctx
  | Other string

datatype node = Node (ident: nat) (kind: kind) (children: "node list")

text \<open>\<^verbatim>\<open>isinstance(node, ast.FunctionDef) or isinstance(node, ast.ClassDef)\<close>, with the name.\<close>

fun def_name :: "node \<Rightarrow> string option" where
  "def_name (Node _ (FunctionDef nm) _) = Some nm"
| "def_name (Node _ (ClassDef nm) _) = Some nm"
| "def_name (Node _ _ _) = None"

fun def_type :: "node \<Rightarrow> string" where
  "def_type (Node _ (ClassDef _) _) = ''class''"
| "def_type (Node _ _ _) = ''function''"

fun is_import :: "node \<Rightarrow> bool" where
  "is_import (Node _ (Import _) _) = True"
| "is_import (Node _ (ImportFrom _ _) _) = True"
| "is_import (Node _ _ _) = False"

text \<open>
  \<^verbatim>\<open>ast.walk\<close>: a queue that starts with the node; each step pops the first node, appends
  its children to the queue and yields the node (breadth first).
\<close>

function walk_queue :: "node list \<Rightarrow> node list" where
  "walk_queue [] = []"
| "walk_queue (n # todo) = n # walk_queue (todo @ children n)"
  by pat_completeness auto
termination
proof (relation "measure (\<lambda>q. sum_list (map size q))")
  show "wf (measure (\<lambda>q. sum_list (map size q)))" by simp
next
  fix n :: node and todo :: "node list"
  have "sum_list (map size (children n)) < size n"
    by (cases n) (simp add: size_list_conv_sum_list)
  then show "(todo @ children n, n # todo) \<in> measure (\<lambda>q. sum_list (map size q))"
    by simp
qed

definition walk :: "node \<Rightarrow> node list" where
  "walk n = walk_queue [n]"

section \<open>The regular-expression enumerator\<close>














type_synonym files = "string \<rightharpoonup> string"

text \<open>The exceptions of the metadata functions, as values.\<close>

datatype py_error =
    FileNotFoundError string
  | SyntaxError
  | ImportError string
  | AttributeError
  | TypeError
  | ValueError
  | OtherError string



section \<open>The runtime the code runs in\<close>

text \<open>
  The metadata functions import the file as a module and introspect the live objects. A live
  object is modelled by the answers of the introspection calls the code makes on it; where
  a call can raise, the answer is \<open>None\<close>.
\<close>

record attr_value =
  attr_is_none :: bool
  attr_is_method :: bool
  attr_is_function :: bool
  attr_str :: string
  attr_module :: "string option"

record py_signature =
  sig_parameters :: "(string \<times> string option \<times> string option) list"
  sig_return :: "string option"

record pyobj =
  obj_name :: "string option"
  obj_module :: "string option"
  obj_is_module :: bool
  obj_is_class :: bool
  obj_is_function :: bool
  obj_is_method :: bool
  obj_doc :: "string option"
  obj_sourcelines :: "(string list \<times> int) option"
  obj_source :: "string option"
  obj_attrs :: "(string \<times> attr_value) list"
  obj_signature :: "py_signature option"
  obj_argspec :: "string option"

text \<open>
  \<open>obj_name\<close> is \<^verbatim>\<open>obj.__name__\<close> (\<open>None\<close>: AttributeError), \<open>obj_module\<close> is
  \<^verbatim>\<open>obj.__module__\<close> (\<open>None\<close>: no such attribute), \<open>obj_is_method\<close> is
  \<^verbatim>\<open>inspect.ismethod(obj) or inspect.ismethoddescriptor(obj) or inspect.ismemberdescriptor(obj)\<close>,
  \<open>obj_sourcelines\<close> and \<open>obj_source\<close> are \<^verbatim>\<open>inspect.getsourcelines\<close> and
  \<^verbatim>\<open>inspect.getsource\<close> (\<open>None\<close>: OSError or TypeError), \<open>obj_attrs\<close> lists \<^verbatim>\<open>dir(obj)\<close>
  with the value of each attribute, \<open>obj_signature\<close> is \<^verbatim>\<open>inspect.signature\<close> (\<open>None\<close>:
  ValueError) and \<open>obj_argspec\<close> is \<^verbatim>\<open>inspect.getfullargspec\<close> (\<open>None\<close>: TypeError).
\<close>

record live_module =
  mod_name :: string
  mod_attrs :: "string \<rightharpoonup> pyobj"

text \<open>
  The library and interpreter calls of the code: \<^verbatim>\<open>Path.resolve\<close>, \<^verbatim>\<open>Path.stem\<close>,
  \<^verbatim>\<open>ast.parse\<close> on a text (\<open>None\<close>: SyntaxError), \<^verbatim>\<open>ast.unparse\<close>, \<^verbatim>\<open>__import__\<close>,
  \<^verbatim>\<open>sys.modules\<close>, \<^verbatim>\<open>sys.stdlib_module_names\<close>, and a \<^verbatim>\<open>Path\<close> seen as a live object.
\<close>

record runtime =
  resolve :: "string \<Rightarrow> string"
  stem :: "string \<Rightarrow> string"
  ast_parse :: "string \<Rightarrow> node option"
  ast_unparse :: "node \<Rightarrow> string"
  import_module :: "string \<Rightarrow> py_error + live_module"
  sys_modules :: "string \<rightharpoonup> live_module"
  stdlib_module_names :: "string set"
  path_object :: "string \<Rightarrow> pyobj"

text \<open>What the functions print.\<close>

datatype notice =
    DependencyParseFailed py_error
  | ObjectNotFoundInFile string
  | ErrorProcessingObject string py_error
  | RenamedObject string string
  | SkippingObject string string
  | TargetNotFound string string
  | MovedSuccessfully "string list" string string

section \<open>The dependency analyzer\<close>

text \<open>
  \<^verbatim>\<open>get_object_dependencies(obj, source_code)\<close>. Python does not check the annotation
  \<^verbatim>\<open>source_code: str\<close>: the metadata extractor passes a text, the relocation passes its
  list of names. \<^verbatim>\<open>ast.parse\<close> hands its argument to \<^verbatim>\<open>compile\<close>, which raises TypeError for
  anything that is not a string, bytes or a tree.
\<close>

datatype source_arg = SourceText string | NameList "string list"

record dependencies =
  local_deps :: "string set"
  imported_deps :: "string option set"
  stdlib_deps :: "string set"

definition parse_arg :: "runtime \<Rightarrow> source_arg \<Rightarrow> py_error + node" where
  "parse_arg rt source_code =
     (case source_code of
        NameList _ \<Rightarrow> Inl TypeError
      | SourceText text \<Rightarrow>
          (case ast_parse rt text of None \<Rightarrow> Inl SyntaxError | Some tree \<Rightarrow> Inr tree))"

text \<open>The \<^verbatim>\<open>for alias in node.names\<close> loop of an \<^verbatim>\<open>Import\<close> node.\<close>

fun add_aliases :: "runtime \<Rightarrow> import_alias list \<Rightarrow> dependencies \<Rightarrow> dependencies" where
  "add_aliases rt [] d = d"
| "add_aliases rt ((nm, asname) # as) d =
     add_aliases rt as
       (if nm \<in> stdlib_module_names rt then d\<lparr>stdlib_deps := insert nm (stdlib_deps d)\<rparr>
        else d\<lparr>imported_deps := insert (Some nm) (imported_deps d)\<rparr>)"

text \<open>The \<^verbatim>\<open>ast.Name\<close> branch with a \<^verbatim>\<open>Load\<close> context.\<close>

definition classify_name :: "runtime \<Rightarrow> pyobj \<Rightarrow> string \<Rightarrow> dependencies \<Rightarrow> py_error + dependencies" where
  "classify_name rt obj nid d =
     (case obj_module obj of
        Some m \<Rightarrow>
          (case sys_modules rt m of
             None \<Rightarrow> Inr d
           | Some module \<Rightarrow>
               (case mod_attrs module nid of
                  None \<Rightarrow> Inr d
                | Some attr \<Rightarrow>
                    if obj_is_module attr then
                      (case obj_name attr of
                         None \<Rightarrow> Inl AttributeError
                       | Some an \<Rightarrow>
                           if an \<in> stdlib_module_names rt
                           then Inr (d\<lparr>stdlib_deps := insert an (stdlib_deps d)\<rparr>)
                           else Inr (d\<lparr>imported_deps := insert (Some an) (imported_deps d)\<rparr>))
                    else if (obj_is_function attr \<or> obj_is_class attr)
                         \<and> obj_module attr = Some (mod_name module)
                    then Inr (d\<lparr>local_deps := insert nid (local_deps d)\<rparr>)
                    else Inr d))
      | None \<Rightarrow>
          (case map_of (obj_attrs obj) nid of
             None \<Rightarrow> Inr d
           | Some attr \<Rightarrow>
               if attr_module attr = Some ''builtins''
               then Inr (d\<lparr>stdlib_deps := insert nid (stdlib_deps d)\<rparr>)
               else Inr d))"

fun classify_node :: "runtime \<Rightarrow> pyobj \<Rightarrow> node \<Rightarrow> dependencies \<Rightarrow> py_error + dependencies" where
  "classify_node rt obj (Node _ (Import names) _) d = Inr (add_aliases rt names d)"
| "classify_node rt obj (Node _ (ImportFrom module names) _) d =
     (case module of
        Some m \<Rightarrow>
          if m \<in> stdlib_module_names rt then Inr (d\<lparr>stdlib_deps := insert m (stdlib_deps d)\<rparr>)
          else Inr (d\<lparr>imported_deps := insert (Some m) (imported_deps d)\<rparr>)
      | None \<Rightarrow> Inr (d\<lparr>imported_deps := insert None (imported_deps d)\<rparr>))"
| "classify_node rt obj (Node _ (Name nid Load) _) d = classify_name rt obj nid d"
| "classify_node rt obj (Node _ _ _) d = Inr d"

fun classify_nodes :: "runtime \<Rightarrow> pyobj \<Rightarrow> node list \<Rightarrow> dependencies \<Rightarrow> py_error + dependencies" where
  "classify_nodes rt obj [] d = Inr d"
| "classify_nodes rt obj (n # ns) d =
     (case classify_node rt obj n d of
        Inl e \<Rightarrow> Inl e
      | Inr d' \<Rightarrow> classify_nodes rt obj ns d')"

text \<open>
  The whole function: the \<^verbatim>\<open>except (SyntaxError, TypeError, AttributeError)\<close> clause prints
  and returns \<^verbatim>\<open>None\<close>. No other exception arises in this model of the body.
\<close>

definition get_object_dependencies ::
  "runtime \<Rightarrow> pyobj \<Rightarrow> source_arg \<Rightarrow> dependencies option \<times> notice list" where
  "get_object_dependencies rt obj source_code =
     (case parse_arg rt source_code of
        Inl e \<Rightarrow> (None, [DependencyParseFailed e])
      | Inr tree \<Rightarrow>
          (case classify_nodes rt obj (walk tree)
                  \<lparr>local_deps = {}, imported_deps = {}, stdlib_deps = {}\<rparr> of
             Inl e \<Rightarrow> (None, [DependencyParseFailed e])
           | Inr d \<Rightarrow> (Some d, [])))"

section \<open>The metadata extractor\<close>

text \<open>
  A Python dictionary keeps its keys in insertion order, and assigning to a key that is
  present replaces the value where the key stands.
\<close>

fun dict_set :: "('k \<times> 'v) list \<Rightarrow> 'k \<Rightarrow> 'v \<Rightarrow> ('k \<times> 'v) list" where
  "dict_set [] k v = [(k, v)]"
| "dict_set ((k', v') # d) k v = (if k' = k then (k, v) # d else (k', v') # dict_set d k v)"






text \<open>
  \<^verbatim>\<open>get_user_defined_objects\<close>: every \<^verbatim>\<open>ClassDef\<close> and \<^verbatim>\<open>FunctionDef\<close> node of
  \<^verbatim>\<open>ast.walk(tree)\<close> enters the dictionary \<^verbatim>\<open>objects\<close>; then the names that are attributes
  of the imported module are kept.
\<close>

fun collect_objects :: "node list \<Rightarrow> (string \<times> string) list \<Rightarrow> (string \<times> string) list" where
  "collect_objects [] objects = objects"
| "collect_objects (n # ns) objects =
     (case def_name n of
        None \<Rightarrow> collect_objects ns objects
      | Some nm \<Rightarrow> collect_objects ns (dict_set objects nm (def_type n)))"

definition static_objects :: "node \<Rightarrow> (string \<times> string) list" where
  "static_objects tree = collect_objects (walk tree) []"

definition get_user_defined_objects ::
  "runtime \<Rightarrow> files \<Rightarrow> string \<Rightarrow> py_error + (string \<times> string) list" where
  "get_user_defined_objects rt fs file_path =
     (case fs file_path of
        None \<Rightarrow> Inl (FileNotFoundError file_path)
      | Some text \<Rightarrow>
          (case ast_parse rt text of
             None \<Rightarrow> Inl SyntaxError
           | Some tree \<Rightarrow>
               (case import_module rt (stem rt file_path) of
                  Inl e \<Rightarrow> Inl e
                | Inr module \<Rightarrow>
                    Inr (filter (\<lambda>(nm, obj_type). mod_attrs module nm \<noteq> None)
                          (static_objects tree)))))"




section \<open>The tree surgeon\<close>

text \<open>
  \<^verbatim>\<open>move_objects\<close> catches every exception at its end: a FileNotFoundError and a SyntaxError
  are raised again with a message of their own, any other exception \<^verbatim>\<open>e\<close> becomes
  \<^verbatim>\<open>Exception(f"An error occurred: {str(e)}")\<close>. The other exceptions of the body are the
  two ValueErrors it raises itself, the TypeError of iterating over \<^verbatim>\<open>None\<close>, and the
  ValueError of \<^verbatim>\<open>list.remove\<close> on an element that is not in the list.
\<close>

datatype cause =
    ObjectsNotFound "string set" string
  | InvalidHandleConflicts string
  | NoneTypeNotIterable
  | NotInList

datatype move_error =
    RaisedFileNotFoundError string
  | RaisedSyntaxError string
  | RaisedException cause

fun node_name :: "node \<Rightarrow> string" where
  "node_name (Node _ (FunctionDef nm) _) = nm"
| "node_name (Node _ (ClassDef nm) _) = nm"
| "node_name (Node _ _ _) = []"

definition with_body :: "node \<Rightarrow> node list \<Rightarrow> node" where
  "with_body tree body = Node (ident tree) (kind tree) body"

text \<open>
  Nodes are shared objects: the node in \<^verbatim>\<open>object_nodes\<close> is the node in the source tree, and
  after its insertion also the node in the destination tree. An assignment to
  \<^verbatim>\<open>object_node.name\<close> is therefore applied to the node of that identity wherever it
  stands.
\<close>

fun set_name :: "string \<Rightarrow> kind \<Rightarrow> kind" where
  "set_name new (FunctionDef _) = FunctionDef new"
| "set_name new (ClassDef _) = ClassDef new"
| "set_name new k = k"

fun rename_in :: "nat \<Rightarrow> string \<Rightarrow> node \<Rightarrow> node" where
  "rename_in i new (Node j k cs) =
     Node j (if j = i then set_name new k else k) (map (rename_in i new) cs)"

fun max_ident :: "node \<Rightarrow> nat" where
  "max_ident (Node i k cs) = fold max (map max_ident cs) i"

text \<open>The second call of \<^verbatim>\<open>ast.parse\<close> makes new objects: the identities of the destination
  tree are moved past those of the source tree.\<close>

fun shift_idents :: "nat \<Rightarrow> node \<Rightarrow> node" where
  "shift_idents d (Node i k cs) = Node (i + d) k (map (shift_idents d) cs)"

text \<open>Lines 20 to 28: the definitions whose name is requested, in the order of the walk, and
  the import statements inside each of them.\<close>

definition locate_objects :: "string list \<Rightarrow> node \<Rightarrow> node list" where
  "locate_objects object_names source_tree =
     filter (\<lambda>n. case def_name n of None \<Rightarrow> False | Some nm \<Rightarrow> nm \<in> set object_names)
       (walk source_tree)"

definition locate_imports :: "node list \<Rightarrow> node list" where
  "locate_imports object_nodes = concat (map (\<lambda>n. filter is_import (walk n)) object_nodes)"

record surgery =
  source_tree :: node
  dest_tree :: node
  import_nodes :: "node list"
  printed :: "notice list"

text \<open>Lines 50 to 65: the conflict policy. The step either goes on with the object (renamed
  or not), or skips it, or raises.\<close>

datatype conflict_result =
    Proceed node "node list" surgery
  | Skipped surgery
  | Invalid cause

definition object_exists :: "string \<Rightarrow> node \<Rightarrow> bool" where
  "object_exists object_name tree = list_ex (\<lambda>n. def_name n = Some object_name) (children tree)"

definition handle_conflict ::
  "string \<Rightarrow> string \<Rightarrow> node \<Rightarrow> node list \<Rightarrow> surgery \<Rightarrow> conflict_result" where
  "handle_conflict handle_conflicts dst object_node rest s =
     (let object_name = node_name object_node in
      if object_exists object_name (dest_tree s) then
        if handle_conflicts = ''rename'' then
          let new_object_name = object_name @ ''_moved''; i = ident object_node in
          Proceed (rename_in i new_object_name object_node)
            (map (rename_in i new_object_name) rest)
            (s\<lparr>source_tree := rename_in i new_object_name (source_tree s),
               dest_tree := rename_in i new_object_name (dest_tree s),
               import_nodes := map (rename_in i new_object_name) (import_nodes s),
               printed := printed s @ [RenamedObject object_name new_object_name]\<rparr>)
        else if handle_conflicts = ''overwrite'' then
          Proceed object_node rest
            (s\<lparr>dest_tree := with_body (dest_tree s)
                 (filter (\<lambda>n. def_name n \<noteq> Some object_name) (children (dest_tree s)))\<rparr>)
        else if handle_conflicts = ''skip'' then
          Skipped (s\<lparr>printed := printed s @ [SkippingObject object_name dst]\<rparr>)
        else Invalid (InvalidHandleConflicts handle_conflicts)
      else Proceed object_node rest s)"

text \<open>Lines 68 to 70: each import node whose text no top-level statement of the destination
  has goes to the front.\<close>

fun add_imports :: "runtime \<Rightarrow> node list \<Rightarrow> node list \<Rightarrow> node list" where
  "add_imports rt [] body = body"
| "add_imports rt (import_node # others) body =
     add_imports rt others
       (if list_ex (\<lambda>n. ast_unparse rt n = ast_unparse rt import_node) body then body
        else import_node # body)"

text \<open>
  Lines 73 to 76. Iterating over the dictionary that \<^verbatim>\<open>get_object_dependencies\<close> returns
  yields its keys; each one becomes a new \<^verbatim>\<open>ast.Import\<close> node. Iterating over \<^verbatim>\<open>None\<close>
  raises a TypeError.
\<close>

definition dict_keys :: "dependencies \<Rightarrow> string list" where
  "dict_keys d = [''local'', ''imported'', ''stdlib'']"

fun add_dependency_imports :: "runtime \<Rightarrow> nat \<Rightarrow> string list \<Rightarrow> node list \<Rightarrow> node list" where
  "add_dependency_imports rt fresh [] body = body"
| "add_dependency_imports rt fresh (dependency # others) body =
     (let import_stmt = Node fresh (Import [(dependency, None)]) [] in
      add_dependency_imports rt (Suc fresh) others
        (if list_ex (\<lambda>n. ast_unparse rt n = ast_unparse rt import_stmt) body then body
         else import_stmt # body))"

text \<open>Lines 79 to 99: where the object goes.\<close>

definition place_object ::
  "string option \<Rightarrow> string \<Rightarrow> node \<Rightarrow> node list \<Rightarrow> node list \<times> notice list" where
  "place_object position dst object_node body =
     (case position of
        None \<Rightarrow> (body @ [object_node], [])
      | Some p \<Rightarrow>
          if p = ''bottom'' then (body @ [object_node], [])
          else if p = ''top'' then (object_node # body, [])
          else
            (case find (\<lambda>n. def_name n = Some p) body of
               None \<Rightarrow> (body @ [object_node], [TargetNotFound p dst])
             | Some target_node \<Rightarrow>
                 let target_index = length (takeWhile (\<lambda>n. ident n \<noteq> ident target_node) body)
                 in (take (target_index + 1) body @ [object_node] @ drop (target_index + 1) body,
                     [])))"

text \<open>\<^verbatim>\<open>source_tree.body.remove(object_node)\<close>: the first element that is the object goes;
  \<open>None\<close> is the ValueError of an object that is not an element.\<close>

fun remove_node :: "nat \<Rightarrow> node list \<Rightarrow> node list option" where
  "remove_node i [] = None"
| "remove_node i (n # ns) =
     (if ident n = i then Some ns else map_option ((#) n) (remove_node i ns))"

text \<open>Lines 67 to 103: the rest of the loop body, for an object that is not skipped.\<close>

definition insert_object ::
  "runtime \<Rightarrow> dependencies option \<Rightarrow> string \<Rightarrow> bool \<Rightarrow> string option \<Rightarrow> node \<Rightarrow>
   surgery \<Rightarrow> cause + surgery" where
  "insert_object rt unique_dependencies dst remove_from_source position object_node s =
     (let body1 = add_imports rt (import_nodes s) (children (dest_tree s)) in
      case unique_dependencies of
        None \<Rightarrow> Inl NoneTypeNotIterable
      | Some deps \<Rightarrow>
          let fresh = Suc (fold max (map max_ident (object_node # import_nodes s))
                        (max (max_ident (source_tree s)) (max_ident (dest_tree s))));
              body2 = add_dependency_imports rt fresh (dict_keys deps) body1;
              (body3, notices) = place_object position dst object_node body2;
              s' = s\<lparr>dest_tree := with_body (dest_tree s) body3,
                      printed := printed s @ notices\<rparr>
          in if remove_from_source then
               (case remove_node (ident object_node) (children (source_tree s)) of
                  None \<Rightarrow> Inl NotInList
                | Some body \<Rightarrow> Inr (s'\<lparr>source_tree := with_body (source_tree s) body\<rparr>))
             else Inr s')"

text \<open>Lines 47 to 103: the loop over \<^verbatim>\<open>object_nodes\<close>.\<close>

lemma handle_conflict_rest_length:
  "handle_conflict handle_conflicts dst object_node rest s = Proceed object_node' rest' s'
   \<Longrightarrow> length rest' = length rest"
  by (auto simp: handle_conflict_def Let_def split: if_splits)

function process_objects ::
  "runtime \<Rightarrow> dependencies option \<Rightarrow> string \<Rightarrow> bool \<Rightarrow> string option \<Rightarrow> string \<Rightarrow>
   node list \<Rightarrow> surgery \<Rightarrow> cause + surgery" where
  "process_objects rt deps dst remove_from_source position handle_conflicts [] s = Inr s"
| "process_objects rt deps dst remove_from_source position handle_conflicts
     (object_node # rest) s =
     (case handle_conflict handle_conflicts dst object_node rest s of
        Invalid c \<Rightarrow> Inl c
      | Skipped s' \<Rightarrow>
          process_objects rt deps dst remove_from_source position handle_conflicts rest s'
      | Proceed object_node' rest' s' \<Rightarrow>
          (case insert_object rt deps dst remove_from_source position object_node' s' of
             Inl c \<Rightarrow> Inl c
           | Inr s'' \<Rightarrow>
               process_objects rt deps dst remove_from_source position handle_conflicts rest' s''))"
  by pat_completeness auto
termination
  by (relation "measure (\<lambda>(rt, deps, dst, rm, pos, hc, objs, s). length objs)")
     (auto dest: handle_conflict_rest_length)

text \<open>
  \<^verbatim>\<open>move_objects\<close>, lines 9 to 103: the two trees when the loop has ended, or the exception.
  The files are a map from resolved paths to texts.
\<close>

definition relocate ::
  "runtime \<Rightarrow> files \<Rightarrow> string list \<Rightarrow> string \<Rightarrow> string \<Rightarrow> bool \<Rightarrow> string option \<Rightarrow>
   string \<Rightarrow> move_error + surgery" where
  "relocate rt fs object_names source_file_path dest_file_path remove_from_source position
     handle_conflicts =
     (let src = resolve rt source_file_path; dst = resolve rt dest_file_path in
      case fs src of
        None \<Rightarrow> Inl (RaisedFileNotFoundError src)
      | Some source_code \<Rightarrow>
          (case ast_parse rt source_code of
             None \<Rightarrow> Inl (RaisedSyntaxError src)
           | Some parsed_source \<Rightarrow>
               let object_nodes = locate_objects object_names parsed_source;
                   found_imports = locate_imports object_nodes
               in if length object_nodes \<noteq> length object_names then
                    Inl (RaisedException
                          (ObjectsNotFound (set object_names - set (map node_name object_nodes)) src))
                  else
                    let (unique_dependencies, notices) =
                          get_object_dependencies rt (path_object rt src) (NameList object_names);
                        dest_code = (case fs dst of None \<Rightarrow> [] | Some text \<Rightarrow> text)
                    in (case ast_parse rt dest_code of
                          None \<Rightarrow> Inl (RaisedSyntaxError src)
                        | Some parsed_dest \<Rightarrow>
                            (case process_objects rt unique_dependencies dst remove_from_source
                                    position handle_conflicts object_nodes
                                    \<lparr>source_tree = parsed_source,
                                     dest_tree =
                                       shift_idents (Suc (max_ident parsed_source)) parsed_dest,
                                     import_nodes = found_imports,
                                     printed = notices\<rparr> of
                               Inl c \<Rightarrow> Inl (RaisedException c)
                             | Inr s \<Rightarrow> Inr s))))"

text \<open>
  \<^verbatim>\<open>move_objects\<close> as a whole: after the loop, lines 105 to 120 serialize the destination
  tree and write it, then do the same for the source tree when \<^verbatim>\<open>remove_from_source\<close> is
  set. A call returns the files after it, the writes it made in their order, and what it
  printed. Opening a file for writing is taken to succeed.
\<close>

record outcome =
  files_after :: files
  writes :: "(string \<times> string) list"
  printed_out :: "notice list"

definition move_objects ::
  "runtime \<Rightarrow> files \<Rightarrow> string list \<Rightarrow> string \<Rightarrow> string \<Rightarrow> bool \<Rightarrow> string option \<Rightarrow>
   string \<Rightarrow> move_error + outcome" where
  "move_objects rt fs object_names source_file_path dest_file_path remove_from_source position
     handle_conflicts =
     (let src = resolve rt source_file_path; dst = resolve rt dest_file_path in
      case relocate rt fs object_names source_file_path dest_file_path remove_from_source
             position handle_conflicts of
        Inl e \<Rightarrow> Inl e
      | Inr s \<Rightarrow>
          let modified_dest_code = ast_unparse rt (dest_tree s);
              modified_source_code = ast_unparse rt (source_tree s)
          in Inr \<lparr>files_after =
                     (if remove_from_source
                      then fs(dst \<mapsto> modified_dest_code, src \<mapsto> modified_source_code)
                      else fs(dst \<mapsto> modified_dest_code)),
                   writes =
                     (if remove_from_source
                      then [(dst, modified_dest_code), (src, modified_source_code)]
                      else [(dst, modified_dest_code)]),
                   printed_out = printed s @ [MovedSuccessfully object_names src dst]\<rparr>)"

section \<open>Notions the properties are stated with\<close>

text \<open>Every node of a tree, the tree itself first.\<close>

fun descendants :: "node \<Rightarrow> node list" where
  "descendants (Node i k cs) = Node i k cs # concat (map descendants cs)"

text \<open>The names of the functions and classes defined directly in the top scope of a
  module, in their order.\<close>

definition top_level_names :: "node \<Rightarrow> string list" where
  "top_level_names tree = List.map_filter def_name (children tree)"


section \<open>An example runtime\<close>

text \<open>
  A small runtime to run the functions on: paths are resolved to themselves, the parser knows
  the texts below, and the serializer writes a definition as \<^verbatim>\<open>ast.unparse\<close> does (a
  definition that is not the first statement follows an empty line). The example trees leave
  out the argument and expression nodes, which the code walks over without testing them; a
  statement the code does not look into carries its text.
\<close>

definition example_def :: "nat \<Rightarrow> string \<Rightarrow> string \<Rightarrow> node" where
  "example_def i nm stmt = Node i (FunctionDef nm) [Node (Suc i) (Other stmt) []]"

definition example_parse :: "string \<Rightarrow> node option" where
  "example_parse text =
     map_of
       [([], Node 0 Module []),
        (''def foo():\<newline>    return 1'', Node 0 Module [example_def 1 ''foo'' ''return 1'']),
        (''def foo(): return 1  # one'', Node 0 Module [example_def 1 ''foo'' ''return 1'']),
        (''def foo():\<newline>    return 2'', Node 0 Module [example_def 1 ''foo'' ''return 2'']),
        (''def bar():\<newline>    return 3'', Node 0 Module [example_def 1 ''bar'' ''return 3'']),
        (''def baz():\<newline>    return 0'', Node 0 Module [example_def 1 ''baz'' ''return 0'']),
        (''def a():\<newline>    return 1\<newline>\<newline>def a():\<newline>    return 2'',
           Node 0 Module [example_def 1 ''a'' ''return 1'', example_def 3 ''a'' ''return 2'']),
        (''def a():\<newline>    return 0'', Node 0 Module [example_def 1 ''a'' ''return 0'']),
        (''def a():\<newline>    return 0\<newline>\<newline>def a():\<newline>    return 5'',
           Node 0 Module [example_def 1 ''a'' ''return 0'', example_def 3 ''a'' ''return 5'']),
        (''def good():\<newline>    return 1\<newline>\<newline>def broken():\<newline>    return 2\<newline>\<newline>def last():\<newline>    return 3'',
           Node 0 Module [example_def 1 ''good'' ''return 1'', example_def 3 ''broken'' ''return 2'',
             example_def 5 ''last'' ''return 3'']),
        (''class A:\<newline>\<newline>    def m(self):\<newline>        return 1'',
           Node 0 Module [Node 1 (ClassDef ''A'') [example_def 2 ''m'' ''return 1'']])]
       text"

fun join_statements :: "(bool \<times> string) list \<Rightarrow> string" where
  "join_statements [] = []"
| "join_statements [(d, t)] = t"
| "join_statements ((d, t) # (d', t') # rest) =
     t @ (if d' then ''\<newline>\<newline>'' else ''\<newline>'') @ join_statements ((d', t') # rest)"

fun example_unparse :: "node \<Rightarrow> string" where
  "example_unparse (Node i k cs) =
     (case k of
        Module \<Rightarrow> join_statements (map (\<lambda>c. (def_name c \<noteq> None, example_unparse c)) cs)
      | FunctionDef nm \<Rightarrow>
          ''def '' @ nm @ ''():'' @ concat (map (\<lambda>c. ''\<newline>    '' @ example_unparse c) cs)
      | ClassDef nm \<Rightarrow>
          ''class '' @ nm @ '':'' @ concat (map (\<lambda>c. ''\<newline>    '' @ example_unparse c) cs)
      | Import names \<Rightarrow> ''import '' @ concat (map fst names)
      | ImportFrom m names \<Rightarrow>
          ''from '' @ (case m of None \<Rightarrow> ''.'' | Some x \<Rightarrow> x) @ '' import '' @ concat (map fst names)
      | Name nid c \<Rightarrow> nid
      | Other t \<Rightarrow> t)"

definition example_object :: pyobj where
  "example_object =
     \<lparr>obj_name = None, obj_module = Some ''pathlib'', obj_is_module = False,
      obj_is_class = False, obj_is_function = False, obj_is_method = False, obj_doc = None,
      obj_sourcelines = None, obj_source = None, obj_attrs = [], obj_signature = None,
      obj_argspec = None\<rparr>"

definition example_function :: "string \<Rightarrow> pyobj" where
  "example_function nm =
     example_object\<lparr>obj_name := Some nm, obj_module := Some ''mod'', obj_is_function := True,
       obj_signature := Some \<lparr>sig_parameters = [], sig_return = None\<rparr>,
       obj_argspec := Some ''FullArgSpec()''\<rparr>"

definition example_module :: live_module where
  "example_module =
     \<lparr>mod_name = ''mod'',
      mod_attrs = [''good'' \<mapsto> example_function ''good'',
                   ''broken'' \<mapsto> (example_function ''broken'')\<lparr>obj_signature := None\<rparr>,
                   ''last'' \<mapsto> example_function ''last'']\<rparr>"

definition example_runtime :: runtime where
  "example_runtime =
     \<lparr>resolve = (\<lambda>p. p),
      stem = takeWhile (\<lambda>c. c \<noteq> CHR ''.''),
      ast_parse = example_parse,
      ast_unparse = example_unparse,
      import_module = (\<lambda>nm. if nm = ''mod'' then Inr example_module else Inl (ImportError nm)),
      sys_modules = [''mod'' \<mapsto> example_module],
      stdlib_module_names = {''os'', ''sys''},
      path_object = (\<lambda>p. example_object)\<rparr>"

section \<open>Properties of the enumerators and of the metadata extractor\<close>










lemma set_walk_queue: "set (walk_queue q) = (\<Union>n\<in>set q. set (descendants n))"
proof (induction q rule: walk_queue.induct)
  case 1
  show ?case by simp
next
  case (2 n todo)
  obtain i k cs where n: "n = Node i k cs" by (cases n)
  show ?case using 2 by (auto simp: n)
qed

lemma set_walk: "set (walk tree) = set (descendants tree)"
  by (cases tree) (simp add: walk_def set_walk_queue)

lemma dict_set_keys: "fst ` set (dict_set d k v) = insert k (fst ` set d)"
proof (induction d)
  case Nil
  show ?case by simp
next
  case (Cons p d)
  obtain k' v' where p: "p = (k', v')" by (cases p)
  show ?case
  proof (cases "k' = k")
    case True
    then show ?thesis by (simp add: p)
  next
    case False
    then show ?thesis using Cons by (simp add: p insert_commute)
  qed
qed

lemma collect_objects_keys:
  "fst ` set (collect_objects ns d) = fst ` set d \<union> {nm. \<exists>n\<in>set ns. def_name n = Some nm}"
  by (induction ns arbitrary: d) (auto simp: dict_set_keys split: option.splits)

lemma static_objects_keys:
  "fst ` set (static_objects tree) = {nm. \<exists>n\<in>set (descendants tree). def_name n = Some nm}"
  by (simp add: static_objects_def collect_objects_keys set_walk)

lemma self_descendant: "n \<in> set (descendants n)"
  by (cases n) simp

lemma children_descendants: "set (children tree) \<subseteq> set (descendants tree)"
  by (cases tree) (auto intro: self_descendant)

lemma top_level_enumerated: "set (top_level_names tree) \<subseteq> fst ` set (static_objects tree)"
  using children_descendants[of tree]
  by (auto simp: top_level_names_def static_objects_keys List.map_filter_def)


section \<open>Properties of the relocation\<close>

lemma get_object_dependencies_NameList:
  "get_object_dependencies rt obj (NameList names) = (None, [DependencyParseFailed TypeError])"
  by (simp add: get_object_dependencies_def parse_arg_def)

lemma insert_object_None:
  "insert_object rt None dst remove_from_source position object_node s = Inl NoneTypeNotIterable"
  by (simp add: insert_object_def Let_def)

lemma process_objects_None:
  assumes "process_objects rt None dst rm pos hc objs s = Inr s'"
  shows "s' = s\<lparr>printed := printed s @ map (\<lambda>n. SkippingObject (node_name n) dst) objs\<rparr>
         \<and> (objs \<noteq> [] \<longrightarrow> hc = ''skip'')
         \<and> list_all (\<lambda>n. object_exists (node_name n) (dest_tree s)) objs"
  using assms
proof (induction objs arbitrary: s)
  case Nil
  then show ?case by simp
next
  case (Cons n objs)
  from Cons.prems obtain s1 where
    h: "handle_conflict hc dst n objs s = Skipped s1"
    and r: "process_objects rt None dst rm pos hc objs s1 = Inr s'"
    by (auto simp: insert_object_None split: conflict_result.splits)
  from h have hc: "hc = ''skip''" and ex: "object_exists (node_name n) (dest_tree s)"
    and s1: "s1 = s\<lparr>printed := printed s @ [SkippingObject (node_name n) dst]\<rparr>"
    by (auto simp: handle_conflict_def Let_def split: if_splits)
  from Cons.IH[OF r] show ?case
    using hc ex by (simp add: s1)
qed

lemma process_objects_skip_all:
  assumes "list_all (\<lambda>n. object_exists (node_name n) (dest_tree s)) objs"
  shows "process_objects rt deps dst rm pos ''skip'' objs s =
           Inr (s\<lparr>printed := printed s @ map (\<lambda>n. SkippingObject (node_name n) dst) objs\<rparr>)"
  using assms
proof (induction objs arbitrary: s)
  case Nil
  then show ?case by simp
next
  case (Cons n objs)
  then have h: "handle_conflict ''skip'' dst n objs s =
      Skipped (s\<lparr>printed := printed s @ [SkippingObject (node_name n) dst]\<rparr>)"
    by (simp add: handle_conflict_def Let_def)
  show ?case using Cons by (simp add: h)
qed

lemma def_name_shift: "def_name (shift_idents d n) = def_name n"
  by (cases n rule: def_name.cases) simp_all

lemma children_shift: "children (shift_idents d n) = map (shift_idents d) (children n)"
  by (cases n) simp



text \<open>What a completed relocation looks like.\<close>

lemma relocate_Inr:
  assumes "relocate rt fs object_names sp dp rm pos hc = Inr s"
  shows "\<exists>source_code parsed_source parsed_dest.
           fs (resolve rt sp) = Some source_code
         \<and> ast_parse rt source_code = Some parsed_source
         \<and> ast_parse rt (case fs (resolve rt dp) of None \<Rightarrow> [] | Some t \<Rightarrow> t) = Some parsed_dest
         \<and> length (locate_objects object_names parsed_source) = length object_names
         \<and> (locate_objects object_names parsed_source \<noteq> [] \<longrightarrow> hc = ''skip'')
         \<and> list_all (\<lambda>n. object_exists (node_name n) parsed_dest)
              (locate_objects object_names parsed_source)
         \<and> s = \<lparr>source_tree = parsed_source,
                 dest_tree = shift_idents (Suc (max_ident parsed_source)) parsed_dest,
                 import_nodes = locate_imports (locate_objects object_names parsed_source),
                 printed = DependencyParseFailed TypeError #
                   map (\<lambda>n. SkippingObject (node_name n) (resolve rt dp))
                     (locate_objects object_names parsed_source)\<rparr>"
proof -
  from assms obtain source_code where sc: "fs (resolve rt sp) = Some source_code"
    by (auto simp: relocate_def Let_def split: option.splits)
  from assms sc obtain parsed_source where ps: "ast_parse rt source_code = Some parsed_source"
    by (auto simp: relocate_def Let_def split: option.splits)
  let ?objs = "locate_objects object_names parsed_source"
  from assms sc ps have len: "length ?objs = length object_names"
    by (auto simp: relocate_def Let_def split: option.splits if_splits)
  let ?dc = "case fs (resolve rt dp) of None \<Rightarrow> [] | Some t \<Rightarrow> t"
  from assms sc ps len obtain parsed_dest where pd: "ast_parse rt ?dc = Some parsed_dest"
    by (auto simp: relocate_def Let_def get_object_dependencies_NameList split: option.splits)
  let ?s0 = "\<lparr>source_tree = parsed_source,
              dest_tree = shift_idents (Suc (max_ident parsed_source)) parsed_dest,
              import_nodes = locate_imports ?objs,
              printed = [DependencyParseFailed TypeError]\<rparr>"
  from assms sc ps len pd
  have po: "process_objects rt None (resolve rt dp) rm pos hc ?objs ?s0 = Inr s"
    by (auto simp: relocate_def Let_def get_object_dependencies_NameList split: sum.splits)
  note c = process_objects_None[OF po]
  have ex: "list_all (\<lambda>n. object_exists (node_name n) parsed_dest) ?objs"
    using c by (simp add: object_exists_def children_shift list_ex_iff list_all_iff def_name_shift)
  show ?thesis
    using sc ps pd len c ex by simp
qed

text \<open>A call that returns has written what the relocation left in the two trees.\<close>

lemma move_objects_Inr:
  assumes "move_objects rt fs object_names sp dp rm pos hc = Inr out"
  shows "\<exists>s. relocate rt fs object_names sp dp rm pos hc = Inr s
       \<and> out = \<lparr>files_after =
                   (if rm then fs(resolve rt dp \<mapsto> ast_unparse rt (dest_tree s),
                                  resolve rt sp \<mapsto> ast_unparse rt (source_tree s))
                    else fs(resolve rt dp \<mapsto> ast_unparse rt (dest_tree s))),
                 writes =
                   (if rm then [(resolve rt dp, ast_unparse rt (dest_tree s)),
                                (resolve rt sp, ast_unparse rt (source_tree s))]
                    else [(resolve rt dp, ast_unparse rt (dest_tree s))]),
                 printed_out = printed s @
                   [MovedSuccessfully object_names (resolve rt sp) (resolve rt dp)]\<rparr>"
  using assms by (auto simp: move_objects_def Let_def split: sum.splits)

text \<open>The guard of line 30, when it fires: the error names the requested names without a
  definition, and nothing is written.\<close>

lemma length_guard_raises:
  assumes "fs (resolve rt sp) = Some source_code"
    and "ast_parse rt source_code = Some parsed_source"
    and "length (locate_objects object_names parsed_source) \<noteq> length object_names"
  shows "move_objects rt fs object_names sp dp rm pos hc =
           Inl (RaisedException
                 (ObjectsNotFound
                   (set object_names - set (map node_name (locate_objects object_names parsed_source)))
                   (resolve rt sp)))"
  using assms by (simp add: move_objects_def relocate_def Let_def)

text \<open>The steps of the loop body, each on its own: the skip policy leaves both trees as
  they are, an unknown policy raises at the first object the destination already has, and
  the position step places the object at the front, at the end, or after the first
  definition of the given name.\<close>

lemma skip_leaves_destination:
  assumes "handle_conflict ''skip'' dst object_node rest s = Skipped s'"
  shows "dest_tree s' = dest_tree s \<and> source_tree s' = source_tree s"
  using assms by (auto simp: handle_conflict_def Let_def split: if_splits)

lemma unknown_policy_raises:
  assumes "object_exists (node_name object_node) (dest_tree s)"
    and "hc \<noteq> ''rename''" "hc \<noteq> ''overwrite''" "hc \<noteq> ''skip''"
  shows "process_objects rt deps dst rm pos hc (object_node # rest) s =
           Inl (InvalidHandleConflicts hc)"
  using assms by (simp add: handle_conflict_def Let_def)

lemma place_object_end:
  "place_object None dst object_node body = (body @ [object_node], [])"
  "place_object (Some ''bottom'') dst object_node body = (body @ [object_node], [])"
  by (simp_all add: place_object_def)

lemma place_object_top:
  "place_object (Some ''top'') dst object_node body = (object_node # body, [])"
  by (simp add: place_object_def)

lemma place_object_after:
  assumes "p \<noteq> ''top''" "p \<noteq> ''bottom''"
    and "def_name target = Some p"
    and "\<forall>n\<in>set before. def_name n \<noteq> Some p"
    and "\<forall>n\<in>set before. ident n \<noteq> ident target"
  shows "place_object (Some p) dst object_node (before @ target # after) =
           (before @ target # object_node # after, [])"
proof -
  have f: "find (\<lambda>n. def_name n = Some p) (before @ target # after) = Some target"
    using assms(3,4) by (induction before) auto
  have t: "takeWhile (\<lambda>n. ident n \<noteq> ident target) (before @ target # after) = before"
    using assms(5) by (induction before) auto
  show ?thesis
    using assms(1,2) by (simp add: place_object_def f t Let_def)
qed

lemma place_object_no_target:
  assumes "p \<noteq> ''top''" "p \<noteq> ''bottom''"
    and "\<forall>n\<in>set body. def_name n \<noteq> Some p"
  shows "place_object (Some p) dst object_node body =
           (body @ [object_node], [TargetNotFound p dst])"
proof -
  have "find (\<lambda>n. def_name n = Some p) body = None"
    using assms(3) by (simp add: find_None_iff)
  then show ?thesis using assms(1,2) by (simp add: place_object_def)
qed

text \<open>Facts to run the example runtime with.\<close>

lemmas example_simps =
  move_objects_def relocate_def example_runtime_def example_parse_def example_def_def
  locate_objects_def locate_imports_def walk_def get_object_dependencies_NameList
  handle_conflict_def object_exists_def insert_object_None Let_def

lemma example_resolve: "resolve example_runtime p = p"
  by (simp add: example_runtime_def)

section \<open>The claims\<close>

subsection \<open>The enumerators and the metadata extractor\<close>

text \<open>
  Claim C7, as the code has it. The static step of the metadata extractor walks the whole
  tree: it collects the name of every function and class definition at any depth, the
  nested ones included, and so also every name defined directly in the top scope. The
  function then keeps, of these names, the ones that are attributes of the imported module.
\<close>

theorem static_enumeration_all_depths:
  "fst ` set (static_objects tree) = {nm. \<exists>n\<in>set (descendants tree). def_name n = Some nm}
   \<and> set (top_level_names tree) \<subseteq> fst ` set (static_objects tree)
   \<and> (\<forall>text module. fs file_path = Some text \<and> ast_parse rt text = Some tree
         \<and> import_module rt (stem rt file_path) = Inr module \<longrightarrow>
        (\<exists>objs. get_user_defined_objects rt fs file_path = Inr objs
           \<and> fst ` set objs = {nm \<in> fst ` set (static_objects tree). mod_attrs module nm \<noteq> None}))"
proof (intro conjI allI impI)
  show "fst ` set (static_objects tree) = {nm. \<exists>n\<in>set (descendants tree). def_name n = Some nm}"
    by (rule static_objects_keys)
  show "set (top_level_names tree) \<subseteq> fst ` set (static_objects tree)"
    by (rule top_level_enumerated)
  fix content m
  assume a: "fs file_path = Some content \<and> ast_parse rt content = Some tree
         \<and> import_module rt (stem rt file_path) = Inr m"
  let ?objs = "filter (\<lambda>(nm, obj_type). mod_attrs m nm \<noteq> None) (static_objects tree)"
  have "get_user_defined_objects rt fs file_path = Inr ?objs"
    using a by (simp add: get_user_defined_objects_def)
  moreover have "fst ` set ?objs = {nm \<in> fst ` set (static_objects tree). mod_attrs m nm \<noteq> None}"
    by force
  ultimately show "\<exists>objs. get_user_defined_objects rt fs file_path = Inr objs
           \<and> fst ` set objs = {nm \<in> fst ` set (static_objects tree). mod_attrs m nm \<noteq> None}"
    by blast
qed

text \<open>The theorem at a file with three top-level functions, all bound in the module.\<close>

theorem static_enumeration_witness:
  "\<exists>objs. get_user_defined_objects example_runtime
     [''mod.py'' \<mapsto> ''def good():\<newline>    return 1\<newline>\<newline>def broken():\<newline>    return 2\<newline>\<newline>def last():\<newline>    return 3'']
     ''mod.py'' = Inr objs
   \<and> fst ` set objs = {''good'', ''broken'', ''last''}"
proof -
  let ?text = "''def good():\<newline>    return 1\<newline>\<newline>def broken():\<newline>    return 2\<newline>\<newline>def last():\<newline>    return 3''"
  let ?tree = "Node 0 Module [example_def 1 ''good'' ''return 1'', example_def 3 ''broken'' ''return 2'',
             example_def 5 ''last'' ''return 3'']"
  have p: "[''mod.py'' \<mapsto> ?text] ''mod.py'' = Some ?text
      \<and> ast_parse example_runtime ?text = Some ?tree
      \<and> import_module example_runtime (stem example_runtime ''mod.py'') = Inr example_module"
    by (simp add: example_runtime_def example_parse_def)
  from static_enumeration_all_depths[of ?tree "[''mod.py'' \<mapsto> ?text]" "''mod.py''" example_runtime] p
  obtain objs where g: "get_user_defined_objects example_runtime [''mod.py'' \<mapsto> ?text] ''mod.py'' = Inr objs"
    and f: "fst ` set objs = {nm \<in> fst ` set (static_objects ?tree). mod_attrs example_module nm \<noteq> None}"
    by blast
  have so: "static_objects ?tree =
      [(''good'', ''function''), (''broken'', ''function''), (''last'', ''function'')]"
    by (simp add: static_objects_def walk_def example_def_def)
  have "fst ` set objs = {''good'', ''broken'', ''last''}"
    unfolding f so by (auto simp: example_module_def)
  with g show ?thesis by blast
qed

text \<open>A method of a class is enumerated although it is not defined in the top scope.\<close>

theorem static_enumeration_counterexample:
  "map fst (static_objects (Node 0 Module [Node 1 (ClassDef ''A'') [example_def 2 ''m'' ''return 1'']]))
     = [''A'', ''m'']
   \<and> top_level_names (Node 0 Module [Node 1 (ClassDef ''A'') [example_def 2 ''m'' ''return 1'']])
     = [''A'']"
  by (simp add: static_objects_def walk_def example_def_def top_level_names_def List.map_filter_def)






subsection \<open>The relocation\<close>

text \<open>
  Claim C1: the relocation runs the dependency analyzer once, inserts one import per
  dependency name that the destination does not have yet, then completes and writes the
  destination. In the code, line 35 calls \<^verbatim>\<open>get_object_dependencies\<close> with the source path
  and the list of names where the function takes an object and its source text: the parse
  of the list raises a TypeError, the function catches it and returns \<^verbatim>\<open>None\<close>, and the
  loop over \<^verbatim>\<open>None\<close> at line 73 raises. A call that moves one function into a file that does
  not exist yet raises and writes nothing.
\<close>

theorem dependency_imports_raise:
  "get_object_dependencies example_runtime (path_object example_runtime ''src.py'')
     (NameList [''foo'']) = (None, [DependencyParseFailed TypeError])
   \<and> move_objects example_runtime [''src.py'' \<mapsto> ''def foo():\<newline>    return 1'']
     [''foo''] ''src.py'' ''dst.py'' False None ''overwrite'' =
   Inl (RaisedException NoneTypeNotIterable)"
  by (simp add: example_simps)

text \<open>
  Claim C2: with a destination that already has \<^verbatim>\<open>foo\<close>, the policy \<^verbatim>\<open>overwrite\<close> leaves
  one \<^verbatim>\<open>foo\<close> (the incoming one), \<^verbatim>\<open>rename\<close> leaves \<^verbatim>\<open>foo\<close> and \<^verbatim>\<open>foo_moved\<close>,
  \<^verbatim>\<open>skip\<close> leaves the destination's \<^verbatim>\<open>foo\<close>, and any other policy raises. In the code the
  last two hold; under \<^verbatim>\<open>overwrite\<close> and \<^verbatim>\<open>rename\<close> the call raises at line 73 before the
  object is inserted, and nothing is written.
\<close>

theorem conflict_policies_example:
  "move_objects example_runtime
     [''src.py'' \<mapsto> ''def foo():\<newline>    return 2'', ''dst.py'' \<mapsto> ''def foo():\<newline>    return 1'']
     [''foo''] ''src.py'' ''dst.py'' False None ''overwrite'' =
   Inl (RaisedException NoneTypeNotIterable)
   \<and> move_objects example_runtime
     [''src.py'' \<mapsto> ''def foo():\<newline>    return 2'', ''dst.py'' \<mapsto> ''def foo():\<newline>    return 1'']
     [''foo''] ''src.py'' ''dst.py'' False None ''rename'' =
   Inl (RaisedException NoneTypeNotIterable)
   \<and> map_sum id writes (move_objects example_runtime
     [''src.py'' \<mapsto> ''def foo():\<newline>    return 2'', ''dst.py'' \<mapsto> ''def foo():\<newline>    return 1'']
     [''foo''] ''src.py'' ''dst.py'' False None ''skip'') =
   Inr [(''dst.py'', ''def foo():\<newline>    return 1'')]
   \<and> move_objects example_runtime
     [''src.py'' \<mapsto> ''def foo():\<newline>    return 2'', ''dst.py'' \<mapsto> ''def foo():\<newline>    return 1'']
     [''foo''] ''src.py'' ''dst.py'' False None ''merge'' =
   Inl (RaisedException (InvalidHandleConflicts ''merge''))"
  by (simp add: example_simps)

text \<open>
  Claim C3: when a requested name has no definition in the source, the call raises an error
  that names the missing names and writes no file. In the code the guard of line 30
  compares the number of nodes found with the number of names requested. With two
  definitions of \<^verbatim>\<open>a\<close> in the source and the names \<^verbatim>\<open>a\<close> and \<^verbatim>\<open>b\<close> requested, the
  numbers agree and the guard does not fire: under \<^verbatim>\<open>skip\<close> the call completes and writes
  the destination, under \<^verbatim>\<open>overwrite\<close> it raises the TypeError of line 73.
\<close>

theorem missing_name_not_reported:
  "map_sum id writes (move_objects example_runtime
     [''s.py'' \<mapsto> ''def a():\<newline>    return 1\<newline>\<newline>def a():\<newline>    return 2'',
      ''d.py'' \<mapsto> ''def a():\<newline>    return 0'']
     [''a'', ''b''] ''s.py'' ''d.py'' False None ''skip'') =
   Inr [(''d.py'', ''def a():\<newline>    return 0'')]
   \<and> move_objects example_runtime
     [''s.py'' \<mapsto> ''def a():\<newline>    return 1\<newline>\<newline>def a():\<newline>    return 2'',
      ''d.py'' \<mapsto> ''def a():\<newline>    return 0'']
     [''a'', ''b''] ''s.py'' ''d.py'' False None ''overwrite'' =
   Inl (RaisedException NoneTypeNotIterable)"
  by (simp add: example_simps)




text \<open>
  Claim C5: the position \<^verbatim>\<open>top\<close> puts the object at the front of the destination,
  \<^verbatim>\<open>bottom\<close> or no position at the end, and a name after the first definition of that
  name. The position step of the code does so (lemmas \<open>place_object_top\<close>,
  \<open>place_object_end\<close>, \<open>place_object_after\<close>, \<open>place_object_no_target\<close>), but no call
  reaches it: moving \<^verbatim>\<open>bar\<close> into a destination that holds \<^verbatim>\<open>baz\<close> raises at line 73 for
  every position, and nothing is written.
\<close>

theorem position_example:
  "move_objects example_runtime
     [''src.py'' \<mapsto> ''def bar():\<newline>    return 3'', ''dst.py'' \<mapsto> ''def baz():\<newline>    return 0'']
     [''bar''] ''src.py'' ''dst.py'' False (Some ''top'') ''overwrite'' =
   Inl (RaisedException NoneTypeNotIterable)
   \<and> move_objects example_runtime
     [''src.py'' \<mapsto> ''def bar():\<newline>    return 3'', ''dst.py'' \<mapsto> ''def baz():\<newline>    return 0'']
     [''bar''] ''src.py'' ''dst.py'' False (Some ''bottom'') ''overwrite'' =
   Inl (RaisedException NoneTypeNotIterable)
   \<and> move_objects example_runtime
     [''src.py'' \<mapsto> ''def bar():\<newline>    return 3'', ''dst.py'' \<mapsto> ''def baz():\<newline>    return 0'']
     [''bar''] ''src.py'' ''dst.py'' False None ''overwrite'' =
   Inl (RaisedException NoneTypeNotIterable)
   \<and> move_objects example_runtime
     [''src.py'' \<mapsto> ''def bar():\<newline>    return 3'', ''dst.py'' \<mapsto> ''def baz():\<newline>    return 0'']
     [''bar''] ''src.py'' ''dst.py'' False (Some ''baz'') ''overwrite'' =
   Inl (RaisedException NoneTypeNotIterable)"
  by (simp add: example_simps)




text \<open>
  Claim C9, as the code has it. A call that completes writes the serialized destination
  tree to the destination, then the serialized source tree to the source when
  \<^verbatim>\<open>remove_from_source\<close> is set, and nothing else; every located declaration was already in
  the destination, so the tree written is the destination as parsed. Unless
  \<^verbatim>\<open>remove_from_source\<close> is set and both paths resolve to the same file, the destination is
  written exactly once.
\<close>

theorem destination_rewritten:
  assumes "move_objects rt fs object_names sp dp rm pos hc = Inr out"
  shows "\<exists>source_code parsed_source parsed_dest.
           fs (resolve rt sp) = Some source_code
         \<and> ast_parse rt source_code = Some parsed_source
         \<and> ast_parse rt (case fs (resolve rt dp) of None \<Rightarrow> [] | Some t \<Rightarrow> t) = Some parsed_dest
         \<and> writes out =
             (resolve rt dp,
              ast_unparse rt (shift_idents (Suc (max_ident parsed_source)) parsed_dest))
             # (if rm then [(resolve rt sp, ast_unparse rt parsed_source)] else [])
         \<and> list_all (\<lambda>n. object_exists (node_name n) parsed_dest)
              (locate_objects object_names parsed_source)
         \<and> (\<not> (rm \<and> resolve rt sp = resolve rt dp) \<longrightarrow>
               length (filter (\<lambda>w. fst w = resolve rt dp) (writes out)) = 1
             \<and> files_after out (resolve rt dp) =
                 Some (ast_unparse rt (shift_idents (Suc (max_ident parsed_source)) parsed_dest)))"
proof -
  from move_objects_Inr[OF assms] obtain s where
    r: "relocate rt fs object_names sp dp rm pos hc = Inr s"
    and o: "out = \<lparr>files_after =
                   (if rm then fs(resolve rt dp \<mapsto> ast_unparse rt (dest_tree s),
                                  resolve rt sp \<mapsto> ast_unparse rt (source_tree s))
                    else fs(resolve rt dp \<mapsto> ast_unparse rt (dest_tree s))),
                 writes =
                   (if rm then [(resolve rt dp, ast_unparse rt (dest_tree s)),
                                (resolve rt sp, ast_unparse rt (source_tree s))]
                    else [(resolve rt dp, ast_unparse rt (dest_tree s))]),
                 printed_out = printed s @
                   [MovedSuccessfully object_names (resolve rt sp) (resolve rt dp)]\<rparr>"
    by blast
  from relocate_Inr[OF r] obtain source_code parsed_source parsed_dest where
    sc: "fs (resolve rt sp) = Some source_code"
    and ps: "ast_parse rt source_code = Some parsed_source"
    and pd: "ast_parse rt (case fs (resolve rt dp) of None \<Rightarrow> [] | Some t \<Rightarrow> t) = Some parsed_dest"
    and ex: "list_all (\<lambda>n. object_exists (node_name n) parsed_dest)
              (locate_objects object_names parsed_source)"
    and st: "source_tree s = parsed_source"
    and dt: "dest_tree s = shift_idents (Suc (max_ident parsed_source)) parsed_dest"
    by force
  have w: "writes out =
             (resolve rt dp,
              ast_unparse rt (shift_idents (Suc (max_ident parsed_source)) parsed_dest))
             # (if rm then [(resolve rt sp, ast_unparse rt parsed_source)] else [])"
    by (simp add: o st dt)
  have c: "\<not> (rm \<and> resolve rt sp = resolve rt dp) \<longrightarrow>
               length (filter (\<lambda>w. fst w = resolve rt dp) (writes out)) = 1
             \<and> files_after out (resolve rt dp) =
                 Some (ast_unparse rt (shift_idents (Suc (max_ident parsed_source)) parsed_dest))"
    by (auto simp: o st dt)
  show ?thesis
    by (rule exI[of _ source_code], rule exI[of _ parsed_source], rule exI[of _ parsed_dest])
       (intro conjI sc ps pd w ex c)
qed

text \<open>A call that skips its only object rewrites a destination that had a comment.\<close>

theorem destination_rewritten_witness:
  "\<exists>out. move_objects example_runtime
        [''src.py'' \<mapsto> ''def foo():\<newline>    return 2'', ''dst.py'' \<mapsto> ''def foo(): return 1  # one'']
        [''foo''] ''src.py'' ''dst.py'' False None ''skip'' = Inr out
      \<and> writes out = [(''dst.py'', ''def foo():\<newline>    return 1'')]
      \<and> files_after out ''dst.py'' = Some ''def foo():\<newline>    return 1''"
proof -
  let ?fs = "[''src.py'' \<mapsto> ''def foo():\<newline>    return 2'', ''dst.py'' \<mapsto> ''def foo(): return 1  # one'']"
  have "\<exists>out. move_objects example_runtime ?fs [''foo''] ''src.py'' ''dst.py'' False None ''skip'' = Inr out"
    by (simp add: example_simps)
  then obtain out where
    m: "move_objects example_runtime ?fs [''foo''] ''src.py'' ''dst.py'' False None ''skip'' = Inr out" ..
  from destination_rewritten[OF m] obtain source_code parsed_source parsed_dest where
    sc: "?fs (resolve example_runtime ''src.py'') = Some source_code"
    and ps: "ast_parse example_runtime source_code = Some parsed_source"
    and pd: "ast_parse example_runtime
          (case ?fs (resolve example_runtime ''dst.py'') of None \<Rightarrow> [] | Some t \<Rightarrow> t) = Some parsed_dest"
    and w: "writes out =
             (resolve example_runtime ''dst.py'',
              ast_unparse example_runtime (shift_idents (Suc (max_ident parsed_source)) parsed_dest))
             # (if False then [(resolve example_runtime ''src.py'', ast_unparse example_runtime parsed_source)] else [])"
    and c: "\<not> (False \<and> resolve example_runtime ''src.py'' = resolve example_runtime ''dst.py'') \<longrightarrow>
               length (filter (\<lambda>w. fst w = resolve example_runtime ''dst.py'') (writes out)) = 1
             \<and> files_after out (resolve example_runtime ''dst.py'') =
                 Some (ast_unparse example_runtime (shift_idents (Suc (max_ident parsed_source)) parsed_dest))"
    by blast
  from pd have pd': "parsed_dest = Node 0 Module [example_def 1 ''foo'' ''return 1'']"
    by (simp add: example_resolve example_runtime_def example_parse_def)
  have u: "ast_unparse example_runtime (shift_idents (Suc (max_ident parsed_source)) parsed_dest)
        = ''def foo():\<newline>    return 1''"
    by (simp add: pd' example_runtime_def example_def_def)
  have w': "writes out = [(''dst.py'', ''def foo():\<newline>    return 1'')]"
    using w by (simp add: u example_resolve)
  have f': "files_after out ''dst.py'' = Some ''def foo():\<newline>    return 1''"
    using c by (simp add: u example_resolve)
  show ?thesis
    by (rule exI[of _ out]) (intro conjI m w' f')
qed

text \<open>Source and destination are the same file and \<^verbatim>\<open>remove_from_source\<close> is set: the
  file is written twice.\<close>

theorem destination_written_twice:
  "map_sum id writes
     (move_objects example_runtime [''m.py'' \<mapsto> ''def foo(): return 1  # one'']
        [] ''m.py'' ''m.py'' True None ''overwrite'') =
   Inr [(''m.py'', ''def foo():\<newline>    return 1''), (''m.py'', ''def foo():\<newline>    return 1'')]"
  by (simp add: example_simps)

end
